theory Spec2Isabelle
  imports Complex_Main
begin

section \<open>The air-quality classifier\<close>

text \<open>
  The accessory is one TypeScript class, \<open>AirQualitySensor\<close> in \<open>src/index.ts\<close>.
  A JavaScript \<open>number\<close> is modelled as a \<open>real\<close>: the thresholds are the decimal
  literals of the source and every comparison is the source's strict greater-than.
  \<open>NaN\<close> and the infinities are not part of the model.
\<close>

text \<open>
  \<open>transformAirQuality(pm2_5, pm10, co2)\<close>: the local \<open>rank\<close> starts at 1; each of the
  three blocks either returns 5 at once or raises \<open>rank\<close> with \<open>Math.max\<close>; the blocks
  run in the order PM2.5, PM10, CO2.
\<close>

definition transformAirQuality :: "real \<Rightarrow> real \<Rightarrow> real \<Rightarrow> real" where
  "transformAirQuality pm2_5 pm10 co2 =
     (let rank0 = 1 in
      if pm2_5 > 100 then 5
      else
        let rank1 = (if pm2_5 > 55.4 then max rank0 4
                     else if pm2_5 > 35.4 then max rank0 3
                     else if pm2_5 > 12 then max rank0 2
                     else rank0) in
        if pm10 > 354 then 5
        else
          let rank2 = (if pm10 > 254 then max rank1 4
                       else if pm10 > 154 then max rank1 3
                       else if pm10 > 54 then max rank1 2
                       else rank1) in
          if co2 > 2000 then 5
          else
            (if co2 > 1000 then max rank2 3
             else if co2 > 500 then max rank2 2
             else rank2))"

text \<open>
  TypeScript's types are gone at run time: \<open>updateCharacteristics\<close> passes on whatever
  fields the response body has, and a field that is missing reads as \<open>undefined\<close>
  (\<open>None\<close>). A comparison with \<open>undefined\<close> is false. \<open>transformAirQuality_untyped\<close>
  is the same body on such arguments.
\<close>

definition js_gt :: "real option \<Rightarrow> real \<Rightarrow> bool" where
  "js_gt x t = (case x of None \<Rightarrow> False | Some v \<Rightarrow> v > t)"

definition transformAirQuality_untyped :: "real option \<Rightarrow> real option \<Rightarrow> real option \<Rightarrow> real" where
  "transformAirQuality_untyped pm2_5 pm10 co2 =
     (let rank0 = 1 in
      if js_gt pm2_5 100 then 5
      else
        let rank1 = (if js_gt pm2_5 55.4 then max rank0 4
                     else if js_gt pm2_5 35.4 then max rank0 3
                     else if js_gt pm2_5 12 then max rank0 2
                     else rank0) in
        if js_gt pm10 354 then 5
        else
          let rank2 = (if js_gt pm10 254 then max rank1 4
                       else if js_gt pm10 154 then max rank1 3
                       else if js_gt pm10 54 then max rank1 2
                       else rank1) in
          if js_gt co2 2000 then 5
          else
            (if js_gt co2 1000 then max rank2 3
             else if js_gt co2 500 then max rank2 2
             else rank2))"

subsection \<open>The breakpoint tables as the specification words them\<close>

text \<open>
  These three functions and \<open>classify_spec\<close> follow the specification's table
  (section 4.1), not the source: one rank per scale, the maximum of the three, and 5
  as soon as one reading is above its top breakpoint. They are what
  \<open>transformAirQuality\<close> is compared with.
\<close>

definition rank_pm25_spec :: "real \<Rightarrow> real" where
  "rank_pm25_spec x = (if x > 55.4 then 4 else if x > 35.4 then 3 else if x > 12 then 2 else 1)"

definition rank_pm10_spec :: "real \<Rightarrow> real" where
  "rank_pm10_spec x = (if x > 254 then 4 else if x > 154 then 3 else if x > 54 then 2 else 1)"

definition rank_co2_spec :: "real \<Rightarrow> real" where
  "rank_co2_spec x = (if x > 1000 then 3 else if x > 500 then 2 else 1)"

definition classify_spec :: "real \<Rightarrow> real \<Rightarrow> real \<Rightarrow> real" where
  "classify_spec pm25 pm10 co2 =
     (if pm25 > 100 \<or> pm10 > 354 \<or> co2 > 2000 then 5
      else max (rank_pm25_spec pm25) (max (rank_pm10_spec pm10) (rank_co2_spec co2)))"

section \<open>The data of the accessory\<close>

text \<open>The interface \<open>AirGradientData\<close>: the JSON body of \<open>/measures/current\<close>.\<close>

record AirGradientData =
  boot :: real
  wifi :: real
  serialno :: string
  rco2 :: real
  pm01 :: real
  pm02 :: real
  pm10 :: real
  pm003Count :: real
  atmp :: real
  rhum :: real
  tvocIndex :: real
  tvoc_raw :: real
  noxIndex :: real
  nox_raw :: real
  ledMode :: string
  firmwareVersion :: string
  fwMode :: string

text \<open>
  \<open>response.data\<close> at run time. \<open>pollAirGradient\<close> hands it to
  \<open>updateCharacteristics\<close> as it comes: nothing decodes or validates it. It is
  \<open>null\<close>, or a value whose fields can be read, each field either missing or of the
  type the interface declares. A body that is not an object (the text of an answer that
  is not JSON, say) reads as one without fields. A body is a Reading when every field is
  there; \<open>as_body\<close> is the body of a Reading.
\<close>

record ResponseData =
  raw_boot :: "real option"
  raw_wifi :: "real option"
  raw_serialno :: "string option"
  raw_rco2 :: "real option"
  raw_pm01 :: "real option"
  raw_pm02 :: "real option"
  raw_pm10 :: "real option"
  raw_pm003Count :: "real option"
  raw_atmp :: "real option"
  raw_rhum :: "real option"
  raw_tvocIndex :: "real option"
  raw_tvoc_raw :: "real option"
  raw_noxIndex :: "real option"
  raw_nox_raw :: "real option"
  raw_ledMode :: "string option"
  raw_firmwareVersion :: "string option"
  raw_fwMode :: "string option"

datatype ResponseBody = NullBody | Fields ResponseData

definition as_body :: "AirGradientData \<Rightarrow> ResponseBody" where
  "as_body data =
     Fields \<lparr>raw_boot = Some (boot data), raw_wifi = Some (wifi data),
       raw_serialno = Some (serialno data), raw_rco2 = Some (rco2 data),
       raw_pm01 = Some (pm01 data), raw_pm02 = Some (pm02 data), raw_pm10 = Some (pm10 data),
       raw_pm003Count = Some (pm003Count data), raw_atmp = Some (atmp data),
       raw_rhum = Some (rhum data), raw_tvocIndex = Some (tvocIndex data),
       raw_tvoc_raw = Some (tvoc_raw data), raw_noxIndex = Some (noxIndex data),
       raw_nox_raw = Some (nox_raw data), raw_ledMode = Some (ledMode data),
       raw_firmwareVersion = Some (firmwareVersion data), raw_fwMode = Some (fwMode data)\<rparr>"

definition is_Reading :: "ResponseBody \<Rightarrow> bool" where
  "is_Reading body =
     (case body of
        NullBody \<Rightarrow> False
      | Fields d \<Rightarrow>
          raw_boot d \<noteq> None \<and> raw_wifi d \<noteq> None \<and> raw_serialno d \<noteq> None
          \<and> raw_rco2 d \<noteq> None \<and> raw_pm01 d \<noteq> None \<and> raw_pm02 d \<noteq> None
          \<and> raw_pm10 d \<noteq> None \<and> raw_pm003Count d \<noteq> None \<and> raw_atmp d \<noteq> None
          \<and> raw_rhum d \<noteq> None \<and> raw_tvocIndex d \<noteq> None \<and> raw_tvoc_raw d \<noteq> None
          \<and> raw_noxIndex d \<noteq> None \<and> raw_nox_raw d \<noteq> None \<and> raw_ledMode d \<noteq> None
          \<and> raw_firmwareVersion d \<noteq> None \<and> raw_fwMode d \<noteq> None)"

text \<open>The fields of the accessory configuration that the class reads.\<close>

record AccessoryConfig =
  config_name :: string
  serialNumber :: string
  pollDelay :: real

text \<open>A service advertised over Bonjour, as the \<open>up\<close> event delivers it.\<close>

record RemoteService =
  name :: string
  host :: string
  port :: nat

text \<open>
  What can be thrown: the rejection of \<open>axios.get\<close> when the request fails, the
  \<open>TypeError\<close> of reading a field of \<open>null\<close>, and the \<open>HapStatusError\<close> of the get
  handlers. The source has no step that decodes the body, so no error stands for a body
  that is not a Reading.
\<close>

datatype HAPStatus = SERVICE_COMMUNICATION_FAILURE

datatype js_error = TransportError | TypeError | HapStatusError HAPStatus

text \<open>
  The three services of the accessory and the characteristics the class touches. The
  framework's characteristic is taken as a cell: \<open>updateValue\<close> and
  \<open>setCharacteristic\<close> store a value, \<open>.value\<close> reads the value stored last, and
  \<open>null\<close> is \<open>None\<close>.
\<close>

datatype Service = infoService | airQualityService | temperatureService

datatype Characteristic =
    Manufacturer | SerialNumber | FirmwareRevision | Model
  | AirQuality | PM2_5Density | PM10Density | CarbonDioxideLevel | CurrentTemperature

datatype CharacteristicValue = Num real | Str string

text \<open>
  The calls of \<open>this.log\<close>: the level, the message text and the further arguments
  (\<open>JSON.stringify(data, null, 2)\<close> is kept as the data it prints).
\<close>

datatype LogLevel = LogDebug | LogInfo | LogError

datatype LogArg = ArgStr string | ArgJson AirGradientData | ArgBody ResponseBody

type_synonym LogEntry = "LogLevel \<times> string \<times> LogArg list"

text \<open>
  The object: the private fields \<open>deviceUrl\<close>, \<open>firmwareVersion\<close> and \<open>isConnected\<close>,
  the configuration, the characteristic values of the three services, and what the
  object has handed to its environment: the log, the Bonjour browser with its \<open>up\<close>
  listener, the repeating timers of \<open>setInterval\<close> (their delays; none is ever
  cleared), the one-shot timer of \<open>setTimeout\<close> while it has not fired, and the URLs
  of the GET requests whose answer \<open>pollAirGradient\<close> still awaits.
\<close>

record AirQualitySensor =
  config :: AccessoryConfig
  deviceUrl :: "string option"
  this_firmwareVersion :: "string option"
  isConnected :: bool
  services :: "Service \<times> Characteristic \<Rightarrow> CharacteristicValue option"
  logged :: "LogEntry list"
  browserListening :: bool
  intervals :: "real list"
  notFoundTimeout :: "real option"
  requests :: "string list"

section \<open>Strings\<close>

text \<open>\<open>s.includes(needle)\<close>: the needle occurs in \<open>s\<close> as a contiguous run.\<close>

fun str_includes :: "string \<Rightarrow> string \<Rightarrow> bool" where
  "str_includes [] needle = (needle = [])"
| "str_includes (c # cs) needle =
     (take (length needle) (c # cs) = needle \<or> str_includes cs needle)"

text \<open>A port number inside a template literal: its decimal digits.\<close>

definition digit_char :: "nat \<Rightarrow> char" where
  "digit_char d = ''0123456789'' ! d"

function number_toString :: "nat \<Rightarrow> string" where
  "number_toString n =
     (if n < 10 then [digit_char n]
      else number_toString (n div 10) @ [digit_char (n mod 10)])"
  by pat_completeness auto
termination
  by (relation "measure id") auto

declare number_toString.simps [simp del]

text \<open>\<open>!this.deviceUrl\<close>: \<open>undefined\<close> and the empty string are falsy.\<close>

definition falsy :: "string option \<Rightarrow> bool" where
  "falsy u = (case u of None \<Rightarrow> True | Some s \<Rightarrow> s = [])"

text \<open>\<open>${this.deviceUrl}\<close> inside a template literal.\<close>

definition template_str :: "string option \<Rightarrow> string" where
  "template_str u = (case u of None \<Rightarrow> ''undefined'' | Some s \<Rightarrow> s)"

section \<open>The methods\<close>

definition log_call :: "LogLevel \<Rightarrow> string \<Rightarrow> LogArg list \<Rightarrow> AirQualitySensor \<Rightarrow> AirQualitySensor" where
  "log_call lvl msg args this = this\<lparr>logged := logged this @ [(lvl, msg, args)]\<rparr>"

definition updateValue ::
  "Service \<times> Characteristic \<Rightarrow> CharacteristicValue \<Rightarrow> AirQualitySensor \<Rightarrow> AirQualitySensor" where
  "updateValue k v this = this\<lparr>services := (services this)(k := Some v)\<rparr>"

text \<open>
  \<open>pollAirGradient\<close> is asynchronous. Up to its \<open>await\<close> it logs and sends the GET
  request; the rest of the body runs when the request settles, on the state of that
  moment. \<open>pollAirGradient_start\<close> is the first part.
\<close>

definition pollAirGradient_start :: "AirQualitySensor \<Rightarrow> AirQualitySensor" where
  "pollAirGradient_start this =
     (let this1 = log_call LogDebug ''Polling data from AirGradient'' [] this
      in this1\<lparr>requests := requests this1 @ [template_str (deviceUrl this1) @ ''/measures/current'']\<rparr>)"

definition updateInfo :: "AirGradientData \<Rightarrow> AirQualitySensor \<Rightarrow> AirQualitySensor" where
  "updateInfo data this =
     (let this1 = this\<lparr>this_firmwareVersion := Some (firmwareVersion data)\<rparr>;
          this2 = updateValue (infoService, FirmwareRevision) (Str (firmwareVersion data)) this1
      in updateValue (infoService, Model) (Str (fwMode data)) this2)"

definition updateCharacteristics :: "AirGradientData \<Rightarrow> AirQualitySensor \<Rightarrow> AirQualitySensor" where
  "updateCharacteristics data this =
     (let this1 = log_call LogDebug ''Updating with new data: '' [ArgJson data] this in
      if boot data = 0 then log_call LogDebug ''Device still booting...'' [] this1
      else
        let this2 = (if Some (firmwareVersion data) \<noteq> this_firmwareVersion this1
                     then updateInfo data this1 else this1);
            airQuality = transformAirQuality (pm02 data) (pm10 data) (rco2 data);
            this3 = updateValue (airQualityService, AirQuality) (Num airQuality) this2;
            this4 = updateValue (airQualityService, PM2_5Density) (Num (pm02 data)) this3;
            this5 = updateValue (airQualityService, PM10Density) (Num (pm10 data)) this4;
            this6 = updateValue (airQualityService, CarbonDioxideLevel) (Num (rco2 data)) this5
        in updateValue (temperatureService, CurrentTemperature) (Num (atmp data)) this6)"

text \<open>
  The rest of \<open>pollAirGradient\<close>, run when the request settles with \<open>response\<close>: a
  rejection (\<open>Inl\<close>) or a body that is a Reading, as the parameter type of
  \<open>updateCharacteristics\<close> says. The inner \<open>case\<close> is the \<open>try\<close> block and
  the outer one the \<open>catch\<close>; the result is how the promise of \<open>pollAirGradient\<close>
  settles, \<open>Inl\<close> being a rejection.
\<close>

definition pollAirGradient_resume ::
  "js_error + AirGradientData \<Rightarrow> AirQualitySensor \<Rightarrow> js_error + AirQualitySensor" where
  "pollAirGradient_resume response this =
     (case (case response of
              Inl thrown \<Rightarrow> Inl thrown
            | Inr data \<Rightarrow> Inr ((updateCharacteristics data this)\<lparr>isConnected := True\<rparr>)) of
        Inl error \<Rightarrow> Inr (this\<lparr>isConnected := False\<rparr>)
      | Inr this1 \<Rightarrow> Inr this1)"

subsection \<open>The same methods on any response body\<close>

text \<open>
  What the three methods do at run time, when the body need not be a Reading. A cell
  given \<open>undefined\<close> holds \<open>None\<close>. \<open>JSON.stringify\<close> accepts \<open>null\<close>; reading
  \<open>data.boot\<close> of \<open>null\<close> throws a \<open>TypeError\<close>, and the state at the throw goes
  with it to the \<open>catch\<close> block. \<open>data.boot === 0\<close> holds only of the number 0, and
  \<open>data.firmwareVersion !== this.firmwareVersion\<close> is false when both are
  \<open>undefined\<close>.
\<close>

definition updateValue_untyped ::
  "Service \<times> Characteristic \<Rightarrow> CharacteristicValue option \<Rightarrow> AirQualitySensor
     \<Rightarrow> AirQualitySensor" where
  "updateValue_untyped k v this = this\<lparr>services := (services this)(k := v)\<rparr>"

definition updateInfo_untyped :: "ResponseData \<Rightarrow> AirQualitySensor \<Rightarrow> AirQualitySensor" where
  "updateInfo_untyped data this =
     (let this1 = this\<lparr>this_firmwareVersion := raw_firmwareVersion data\<rparr>;
          this2 = updateValue_untyped (infoService, FirmwareRevision)
                    (map_option Str (raw_firmwareVersion data)) this1
      in updateValue_untyped (infoService, Model) (map_option Str (raw_fwMode data)) this2)"

definition updateCharacteristics_untyped ::
  "ResponseBody \<Rightarrow> AirQualitySensor \<Rightarrow> (js_error \<times> AirQualitySensor) + AirQualitySensor" where
  "updateCharacteristics_untyped body this =
     (let this1 = log_call LogDebug ''Updating with new data: '' [ArgBody body] this in
      case body of
        NullBody \<Rightarrow> Inl (TypeError, this1)
      | Fields data \<Rightarrow>
          if raw_boot data = Some 0
          then Inr (log_call LogDebug ''Device still booting...'' [] this1)
          else
            let this2 = (if raw_firmwareVersion data \<noteq> this_firmwareVersion this1
                         then updateInfo_untyped data this1 else this1);
                airQuality = transformAirQuality_untyped (raw_pm02 data) (raw_pm10 data)
                               (raw_rco2 data);
                this3 = updateValue (airQualityService, AirQuality) (Num airQuality) this2;
                this4 = updateValue_untyped (airQualityService, PM2_5Density)
                          (map_option Num (raw_pm02 data)) this3;
                this5 = updateValue_untyped (airQualityService, PM10Density)
                          (map_option Num (raw_pm10 data)) this4;
                this6 = updateValue_untyped (airQualityService, CarbonDioxideLevel)
                          (map_option Num (raw_rco2 data)) this5
            in Inr (updateValue_untyped (temperatureService, CurrentTemperature)
                      (map_option Num (raw_atmp data)) this6))"

definition pollAirGradient_resume_untyped ::
  "js_error + ResponseBody \<Rightarrow> AirQualitySensor \<Rightarrow> js_error + AirQualitySensor" where
  "pollAirGradient_resume_untyped response this =
     (case (case response of
              Inl thrown \<Rightarrow> Inl (thrown, this)
            | Inr body \<Rightarrow>
                (case updateCharacteristics_untyped body this of
                   Inl thrown_at \<Rightarrow> Inl thrown_at
                 | Inr this1 \<Rightarrow> Inr (this1\<lparr>isConnected := True\<rparr>))) of
        Inl (error, this1) \<Rightarrow> Inr (this1\<lparr>isConnected := False\<rparr>)
      | Inr this1 \<Rightarrow> Inr this1)"

subsection \<open>Discovery\<close>

text \<open>The listener that \<open>discoverDevice\<close> registers for the browser's \<open>up\<close> event.\<close>

definition browser_on_up :: "RemoteService \<Rightarrow> AirQualitySensor \<Rightarrow> AirQualitySensor" where
  "browser_on_up service this =
     (if str_includes (name service) (''airgradient_'' @ serialNumber (config this)) then
        let this1 = this\<lparr>deviceUrl :=
                      Some (''http://'' @ host service @ '':'' @ number_toString (port service))\<rparr>;
            this2 = log_call LogInfo (''Device found at '' @ template_str (deviceUrl this1)) [] this1;
            this3 = pollAirGradient_start this2
        in this3\<lparr>intervals := intervals this3 @ [pollDelay (config this3)]\<rparr>
      else this)"

text \<open>The callback that \<open>discoverDevice\<close> hands to \<open>setTimeout\<close>.\<close>

definition not_found_callback :: "AirQualitySensor \<Rightarrow> AirQualitySensor" where
  "not_found_callback this =
     (if falsy (deviceUrl this)
      then log_call LogError ''No device found: '' [ArgStr (serialNumber (config this))] this
      else this)"

definition discoverDevice :: "AirQualitySensor \<Rightarrow> AirQualitySensor" where
  "discoverDevice this =
     (let this1 = log_call LogDebug ''Starting device discovery using Bonjour'' [] this
      in this1\<lparr>browserListening := True, notFoundTimeout := Some 5000\<rparr>)"

text \<open>
  The constructor. \<open>MANUFACTURER\<close> comes from \<open>./settings\<close> and the fresh
  characteristic values from the framework, so both are parameters.
\<close>

definition new_AirQualitySensor ::
  "AccessoryConfig \<Rightarrow> string \<Rightarrow> (Service \<times> Characteristic \<Rightarrow> CharacteristicValue option)
     \<Rightarrow> AirQualitySensor" where
  "new_AirQualitySensor cfg MANUFACTURER fresh =
     (let this0 = \<lparr>config = cfg, deviceUrl = None, this_firmwareVersion = None,
                   isConnected = False, services = fresh, logged = [],
                   browserListening = False, intervals = [], notFoundTimeout = None,
                   requests = []\<rparr>;
          this1 = updateValue (infoService, Manufacturer) (Str MANUFACTURER) this0;
          this2 = updateValue (infoService, SerialNumber) (Str (serialNumber cfg)) this1;
          this3 = this2\<lparr>isConnected := False\<rparr>
      in discoverDevice this3)"

subsection \<open>The get handlers\<close>

definition handleAirQualityGet :: "AirQualitySensor \<Rightarrow> js_error + CharacteristicValue option" where
  "handleAirQualityGet this =
     (if isConnected this then Inr (services this (airQualityService, AirQuality))
      else Inl (HapStatusError SERVICE_COMMUNICATION_FAILURE))"

definition handleCarbonDioxideLevelGet :: "AirQualitySensor \<Rightarrow> js_error + CharacteristicValue option" where
  "handleCarbonDioxideLevelGet this =
     (if isConnected this then Inr (services this (airQualityService, CarbonDioxideLevel))
      else Inl (HapStatusError SERVICE_COMMUNICATION_FAILURE))"

definition handlePM25Get :: "AirQualitySensor \<Rightarrow> js_error + CharacteristicValue option" where
  "handlePM25Get this =
     (if isConnected this then Inr (services this (airQualityService, PM2_5Density))
      else Inl (HapStatusError SERVICE_COMMUNICATION_FAILURE))"

definition handlePM10Get :: "AirQualitySensor \<Rightarrow> js_error + CharacteristicValue option" where
  "handlePM10Get this =
     (if isConnected this then Inr (services this (airQualityService, PM10Density))
      else Inl (HapStatusError SERVICE_COMMUNICATION_FAILURE))"

definition handleTemperatureGet :: "AirQualitySensor \<Rightarrow> js_error + CharacteristicValue option" where
  "handleTemperatureGet this =
     (if isConnected this then Inr (services this (temperatureService, CurrentTemperature))
      else Inl (HapStatusError SERVICE_COMMUNICATION_FAILURE))"

text \<open>
  \<open>addHandlers\<close> binds one handler to each of five characteristics with \<open>onGet\<close>; it
  runs once, in the constructor, so the binding is a fixed table. A read from outside
  goes through the bound handler, and reads the cell where none is bound.
\<close>

definition addHandlers ::
  "Service \<times> Characteristic \<Rightarrow> (AirQualitySensor \<Rightarrow> js_error + CharacteristicValue option) option" where
  "addHandlers k =
     (if k = (airQualityService, AirQuality) then Some handleAirQualityGet
      else if k = (airQualityService, CarbonDioxideLevel) then Some handleCarbonDioxideLevelGet
      else if k = (airQualityService, PM2_5Density) then Some handlePM25Get
      else if k = (airQualityService, PM10Density) then Some handlePM10Get
      else if k = (temperatureService, CurrentTemperature) then Some handleTemperatureGet
      else None)"

definition onGet :: "Service \<times> Characteristic \<Rightarrow> AirQualitySensor \<Rightarrow> js_error + CharacteristicValue option" where
  "onGet k this = (case addHandlers k of None \<Rightarrow> Inr (services this k) | Some handler \<Rightarrow> handler this)"

text \<open>The five measurements that are read from outside.\<close>

definition metrics :: "(Service \<times> Characteristic) list" where
  "metrics = [(airQualityService, AirQuality), (airQualityService, PM2_5Density),
              (airQualityService, PM10Density), (airQualityService, CarbonDioxideLevel),
              (temperatureService, CurrentTemperature)]"

section \<open>The events of the environment\<close>

text \<open>
  After construction the object only reacts: to an advertisement (\<open>up\<close>), to the
  one-shot timer, to a repeating timer, and to the answer of a GET request. A timer
  that is not pending and an answer that no request awaits cannot occur, and such an
  event changes nothing. Answers are matched to the requests in the order they were
  sent; the body of \<open>pollAirGradient\<close> does not look at the request it answers. An
  answer carries any body, a Reading or not.
\<close>

datatype event =
    ServiceUp RemoteService
  | NotFoundTimeoutFires
  | IntervalFires
  | RequestSettles "js_error + ResponseBody"

fun step :: "event \<Rightarrow> AirQualitySensor \<Rightarrow> js_error + AirQualitySensor" where
  "step (ServiceUp service) this =
     Inr (if browserListening this then browser_on_up service this else this)"
| "step NotFoundTimeoutFires this =
     Inr (case notFoundTimeout this of
            None \<Rightarrow> this
          | Some delay \<Rightarrow> not_found_callback (this\<lparr>notFoundTimeout := None\<rparr>))"
| "step IntervalFires this =
     Inr (if intervals this = [] then this else pollAirGradient_start this)"
| "step (RequestSettles response) this =
     (case requests this of
        [] \<Rightarrow> Inr this
      | url # rest \<Rightarrow> pollAirGradient_resume_untyped response (this\<lparr>requests := rest\<rparr>))"

text \<open>A run stops at the first rejection that nothing handles.\<close>

fun run :: "event list \<Rightarrow> AirQualitySensor \<Rightarrow> js_error + AirQualitySensor" where
  "run [] this = Inr this"
| "run (e # es) this = (case step e this of Inl err \<Rightarrow> Inl err | Inr this1 \<Rightarrow> run es this1)"

subsection \<open>What is observed of a state\<close>

text \<open>
  The source has no field for the monitor's state. \<open>monitor_state_of\<close> reads the
  specification's two names off the fields: \<open>Connected_Polling\<close> once there is an
  address and a repeating timer, \<open>Discovering\<close> before that. It is a label only;
  that polls are sent is stated through \<open>requests\<close> wherever it matters.
\<close>

datatype monitor_state = Discovering | Connected_Polling

definition monitor_state_of :: "AirQualitySensor \<Rightarrow> monitor_state" where
  "monitor_state_of this =
     (if falsy (deviceUrl this) \<or> intervals this = [] then Discovering else Connected_Polling)"

definition count_logged :: "LogLevel \<Rightarrow> AirQualitySensor \<Rightarrow> nat" where
  "count_logged lvl this = length (filter (\<lambda>entry. fst entry = lvl) (logged this))"

text \<open>An advertisement that the listener accepts under configuration \<open>cfg\<close>.\<close>

fun matching :: "AccessoryConfig \<Rightarrow> event \<Rightarrow> bool" where
  "matching cfg (ServiceUp service) =
     str_includes (name service) (''airgradient_'' @ serialNumber cfg)"
| "matching cfg NotFoundTimeoutFires = False"
| "matching cfg IntervalFires = False"
| "matching cfg (RequestSettles response) = False"

section \<open>Sample inputs\<close>

text \<open>
  A configuration, two advertisements of the configured device (the second from another
  address), an advertisement of another device, a reading taken while the device boots,
  an ordinary reading, and the body \<open>{}\<close>, which has none of the fields of a Reading.
  They are the concrete inputs of the instances below.
\<close>

definition demo_config :: AccessoryConfig where
  "demo_config = \<lparr>config_name = ''Office'', serialNumber = ''84fce6'', pollDelay = 60000\<rparr>"

definition demo_service :: RemoteService where
  "demo_service = \<lparr>name = ''airgradient_84fce6'', host = ''10.0.0.7'', port = 80\<rparr>"

definition demo_service_moved :: RemoteService where
  "demo_service_moved = \<lparr>name = ''airgradient_84fce6'', host = ''10.0.0.9'', port = 80\<rparr>"

definition demo_other_service :: RemoteService where
  "demo_other_service = \<lparr>name = ''airgradient_a1b2c3'', host = ''10.0.0.8'', port = 80\<rparr>"

definition demo_reading :: AirGradientData where
  "demo_reading =
     \<lparr>boot = 12, wifi = -52, serialno = ''84fce6'', rco2 = 450, pm01 = 3, pm02 = 13,
      pm10 = 20, pm003Count = 400, atmp = 21.5, rhum = 40, tvocIndex = 100, tvoc_raw = 31000,
      noxIndex = 1, nox_raw = 16000, ledMode = ''co2'', firmwareVersion = ''3.1.1'',
      fwMode = ''I-9PSL''\<rparr>"

definition demo_booting :: AirGradientData where
  "demo_booting = demo_reading\<lparr>boot := 0, rco2 := 0, pm02 := 0\<rparr>"


definition demo_sensor :: AirQualitySensor where
  "demo_sensor = new_AirQualitySensor demo_config ''AirGradient'' (\<lambda>k. None)"

text \<open>The sample object after one ordinary reading, and after a failed poll that followed it.\<close>

definition demo_connected :: AirQualitySensor where
  "demo_connected = (updateCharacteristics demo_reading demo_sensor)\<lparr>isConnected := True\<rparr>"

definition demo_stale :: AirQualitySensor where
  "demo_stale = demo_connected\<lparr>isConnected := False\<rparr>"

section \<open>Properties of the classifier\<close>

lemma rank_pm25_spec_mono: "x \<le> y \<Longrightarrow> rank_pm25_spec x \<le> rank_pm25_spec y"
  by (simp add: rank_pm25_spec_def)

lemma rank_pm10_spec_mono: "x \<le> y \<Longrightarrow> rank_pm10_spec x \<le> rank_pm10_spec y"
  by (simp add: rank_pm10_spec_def)

lemma rank_co2_spec_mono: "x \<le> y \<Longrightarrow> rank_co2_spec x \<le> rank_co2_spec y"
  by (simp add: rank_co2_spec_def)

lemma rank_pm25_spec_le: "rank_pm25_spec x \<le> 5"
  by (simp add: rank_pm25_spec_def)

lemma rank_pm10_spec_le: "rank_pm10_spec x \<le> 5"
  by (simp add: rank_pm10_spec_def)

lemma rank_co2_spec_le: "rank_co2_spec x \<le> 5"
  by (simp add: rank_co2_spec_def)

lemma transformAirQuality_tables:
  "transformAirQuality p q c = classify_spec p q c"
proof (cases "p > 100 \<or> q > 354 \<or> c > 2000")
  case True
  then show ?thesis
    by (auto simp: transformAirQuality_def classify_spec_def Let_def)
next
  case False
  then have top: "\<not> p > 100" "\<not> q > 354" "\<not> c > 2000"
    by auto
  show ?thesis
    unfolding transformAirQuality_def classify_spec_def Let_def
      rank_pm25_spec_def rank_pm10_spec_def rank_co2_spec_def
    using top by (simp add: max_def)
qed

lemma classify_spec_le: "classify_spec p q c \<le> 5"
  by (simp add: classify_spec_def rank_pm25_spec_le rank_pm10_spec_le rank_co2_spec_le)

lemma classify_spec_mono:
  assumes "p \<le> p'" and "q \<le> q'" and "c \<le> c'"
  shows "classify_spec p q c \<le> classify_spec p' q' c'"
proof (cases "p' > 100 \<or> q' > 354 \<or> c' > 2000")
  case True
  then have "classify_spec p' q' c' = 5"
    by (simp add: classify_spec_def)
  then show ?thesis
    by (simp add: classify_spec_le)
next
  case False
  with assms have low: "\<not> (p > 100 \<or> q > 354 \<or> c > 2000)"
    by auto
  have "max (rank_pm25_spec p) (max (rank_pm10_spec q) (rank_co2_spec c))
      \<le> max (rank_pm25_spec p') (max (rank_pm10_spec q') (rank_co2_spec c'))"
    by (intro max.mono rank_pm25_spec_mono rank_pm10_spec_mono rank_co2_spec_mono assms)
  with False low show ?thesis
    by (simp add: classify_spec_def)
qed

text \<open>
  C1. For all readings (the non-negative ones among them) the rank computed by
  \<open>transformAirQuality\<close> is the maximum of the three per-scale ranks of the breakpoint
  tables, with strict comparisons and no rank-4 band for CO2, except that a reading
  above its top breakpoint (PM2.5 above 100, PM10 above 354, CO2 above 2000) makes the
  result 5 whatever the others are. The four listed values are instances.
\<close>

theorem C1_classify_is_max_of_tables:
  "transformAirQuality pm_25 pm_10 co_2 =
     (if pm_25 > 100 \<or> pm_10 > 354 \<or> co_2 > 2000 then 5
      else max (rank_pm25_spec pm_25) (max (rank_pm10_spec pm_10) (rank_co2_spec co_2)))
   \<and> rank_pm25_spec pm_25 =
       (if pm_25 > 55.4 then 4 else if pm_25 > 35.4 then 3 else if pm_25 > 12 then 2 else 1)
   \<and> rank_pm10_spec pm_10 =
       (if pm_10 > 254 then 4 else if pm_10 > 154 then 3 else if pm_10 > 54 then 2 else 1)
   \<and> rank_co2_spec co_2 = (if co_2 > 1000 then 3 else if co_2 > 500 then 2 else 1)
   \<and> transformAirQuality 101 0 0 = 5
   \<and> transformAirQuality 0 355 0 = 5
   \<and> transformAirQuality 0 0 2001 = 5
   \<and> transformAirQuality 56 160 600 = 4"
proof -
  have "transformAirQuality pm_25 pm_10 co_2 = classify_spec pm_25 pm_10 co_2"
    by (rule transformAirQuality_tables)
  moreover have "transformAirQuality 101 0 0 = 5" "transformAirQuality 0 355 0 = 5"
    "transformAirQuality 0 0 2001 = 5" "transformAirQuality 56 160 600 = 4"
    by (simp_all add: transformAirQuality_def)
  ultimately show ?thesis
    by (simp add: classify_spec_def rank_pm25_spec_def rank_pm10_spec_def rank_co2_spec_def)
qed

text \<open>
  C2. The claim lists \<open>classify(13, 0, 0) = 2\<close>, \<open>classify(0, 0, 1500) = 3\<close> and
  \<open>classify(0, 0, 999) = 1\<close>. The third value is not what the source computes: 999 ppm
  is above the 500 ppm breakpoint, so the CO2 block raises the rank to 2.
\<close>

theorem C2_co2_999_counterexample:
  "transformAirQuality 0 0 999 = 2 \<and> transformAirQuality 0 0 999 \<noteq> 1"
  by (simp add: transformAirQuality_def)

text \<open>
  C2, as amended. \<open>classify(13, 0, 0) = 2\<close>, \<open>classify(0, 0, 1500) = 3\<close> and
  \<open>classify(0, 0, 999) = 2\<close> (rank 1 needs CO2 at most 500); a reading equal to a
  threshold stays in the lower band, because every comparison is strict: CO2 at exactly
  1000 gives rank 2 and not 3, and the same holds at each of the other ten thresholds.
\<close>

theorem C2_boundaries_are_strict:
  "transformAirQuality 13 0 0 = 2
   \<and> transformAirQuality 0 0 1500 = 3
   \<and> transformAirQuality 0 0 999 = 2
   \<and> transformAirQuality 0 0 1000 \<noteq> 3
   \<and> transformAirQuality 0 0 1000 = 2
   \<and> transformAirQuality 0 0 500 = 1
   \<and> transformAirQuality 0 0 2000 = 3
   \<and> transformAirQuality 12 0 0 = 1
   \<and> transformAirQuality 35.4 0 0 = 2
   \<and> transformAirQuality 55.4 0 0 = 3
   \<and> transformAirQuality 100 0 0 = 4
   \<and> transformAirQuality 0 54 0 = 1
   \<and> transformAirQuality 0 154 0 = 2
   \<and> transformAirQuality 0 254 0 = 3
   \<and> transformAirQuality 0 354 0 = 4"
  by (simp add: transformAirQuality_def)

text \<open>
  C8. \<open>transformAirQuality\<close> reads nothing but its three arguments and writes nothing
  but its local \<open>rank\<close>, so it is embedded as a function of three numbers: it has a
  value at every input and the same value each time. That value is one of 1, 2, 3, 4
  and 5, for all readings and so for the non-negative ones.
\<close>

theorem C8_rank_in_one_to_five:
  "transformAirQuality pm_25 pm_10 co_2 \<in> {1, 2, 3, 4, 5}"
proof -
  have "classify_spec pm_25 pm_10 co_2 \<in> {1, 2, 3, 4, 5}"
    unfolding classify_spec_def rank_pm25_spec_def rank_pm10_spec_def rank_co2_spec_def
    by (simp add: max_def)
  then show ?thesis
    by (simp only: transformAirQuality_tables)
qed

text \<open>
  C9. The rank is monotone in each argument: with the other two readings fixed, a
  larger PM2.5, PM10 or CO2 reading never gives a smaller rank.
\<close>

theorem C9_classify_monotone:
  "(p \<le> p' \<longrightarrow> transformAirQuality p q c \<le> transformAirQuality p' q c)
   \<and> (q \<le> q' \<longrightarrow> transformAirQuality p q c \<le> transformAirQuality p q' c)
   \<and> (c \<le> c' \<longrightarrow> transformAirQuality p q c \<le> transformAirQuality p q c')"
  by (simp add: transformAirQuality_tables classify_spec_mono)

theorem C9_classify_monotone_witness:
  "(10::real) \<le> 60 \<and> transformAirQuality 10 20 400 \<le> transformAirQuality 60 20 400
   \<and> (20::real) \<le> 200 \<and> transformAirQuality 10 20 400 \<le> transformAirQuality 10 200 400
   \<and> (400::real) \<le> 1500 \<and> transformAirQuality 10 20 400 \<le> transformAirQuality 10 20 1500"
  using C9_classify_monotone [of 10 60 20 400 200 1500] by simp

section \<open>Properties of the methods\<close>

lemmas method_defs =
  log_call_def updateValue_def pollAirGradient_start_def updateInfo_def
  updateCharacteristics_def browser_on_up_def not_found_callback_def discoverDevice_def

lemmas untyped_defs =
  updateValue_untyped_def updateInfo_untyped_def updateCharacteristics_untyped_def

lemmas handler_defs =
  handleAirQualityGet_def handleCarbonDioxideLevelGet_def handlePM25Get_def
  handlePM10Get_def handleTemperatureGet_def

lemma pollAirGradient_resume_Inl:
  "pollAirGradient_resume (Inl thrown) this = Inr (this\<lparr>isConnected := False\<rparr>)"
  by (simp add: pollAirGradient_resume_def)

lemma pollAirGradient_resume_Inr:
  "pollAirGradient_resume (Inr data) this =
     Inr ((updateCharacteristics data this)\<lparr>isConnected := True\<rparr>)"
  by (simp add: pollAirGradient_resume_def)

lemma updateCharacteristics_booting:
  "boot data = 0 \<Longrightarrow>
   updateCharacteristics data this =
     this\<lparr>logged := logged this @
        [(LogDebug, ''Updating with new data: '', [ArgJson data]),
         (LogDebug, ''Device still booting...'', [])]\<rparr>"
  by (simp add: updateCharacteristics_def log_call_def Let_def)

lemma onGet_metrics:
  "k \<in> set metrics \<Longrightarrow>
   onGet k this =
     (if isConnected this then Inr (services this k)
      else Inl (HapStatusError SERVICE_COMMUNICATION_FAILURE))"
  by (auto simp: metrics_def onGet_def addHandlers_def handler_defs)

lemma updateCharacteristics_frame:
  "config (updateCharacteristics data this) = config this"
  "deviceUrl (updateCharacteristics data this) = deviceUrl this"
  "browserListening (updateCharacteristics data this) = browserListening this"
  "intervals (updateCharacteristics data this) = intervals this"
  "notFoundTimeout (updateCharacteristics data this) = notFoundTimeout this"
  "requests (updateCharacteristics data this) = requests this"
  "isConnected (updateCharacteristics data this) = isConnected this"
  by (simp_all add: method_defs Let_def)

lemma updateCharacteristics_count_logged:
  "lvl \<noteq> LogDebug \<Longrightarrow>
   count_logged lvl (updateCharacteristics data this) = count_logged lvl this"
  by (simp add: count_logged_def method_defs Let_def)

lemma updateCharacteristics_stores:
  assumes "boot data \<noteq> 0"
  shows "services (updateCharacteristics data this) (airQualityService, AirQuality)
           = Some (Num (transformAirQuality (pm02 data) (pm10 data) (rco2 data)))"
    and "services (updateCharacteristics data this) (airQualityService, PM2_5Density)
           = Some (Num (pm02 data))"
    and "services (updateCharacteristics data this) (airQualityService, PM10Density)
           = Some (Num (pm10 data))"
    and "services (updateCharacteristics data this) (airQualityService, CarbonDioxideLevel)
           = Some (Num (rco2 data))"
    and "services (updateCharacteristics data this) (temperatureService, CurrentTemperature)
           = Some (Num (atmp data))"
    and "this_firmwareVersion (updateCharacteristics data this) = Some (firmwareVersion data)"
  using assms by (auto simp: method_defs Let_def)

subsection \<open>Any response body\<close>

lemma transformAirQuality_untyped_Some:
  "transformAirQuality_untyped (Some p) (Some q) (Some c) = transformAirQuality p q c"
  by (simp add: transformAirQuality_untyped_def transformAirQuality_def js_gt_def)


lemma pollAirGradient_resume_untyped_Inl:
  "pollAirGradient_resume_untyped (Inl thrown) this = Inr (this\<lparr>isConnected := False\<rparr>)"
  by (simp add: pollAirGradient_resume_untyped_def)

lemma pollAirGradient_resume_untyped_Null:
  "pollAirGradient_resume_untyped (Inr NullBody) this =
     Inr (this\<lparr>logged := logged this @
                 [(LogDebug, ''Updating with new data: '', [ArgBody NullBody])],
               isConnected := False\<rparr>)"
  by (simp add: pollAirGradient_resume_untyped_def updateCharacteristics_untyped_def
      log_call_def)

lemma updateCharacteristics_untyped_Fields:
  "\<exists>this1. updateCharacteristics_untyped (Fields data) this = Inr this1
     \<and> config this1 = config this \<and> deviceUrl this1 = deviceUrl this
     \<and> browserListening this1 = browserListening this \<and> intervals this1 = intervals this
     \<and> notFoundTimeout this1 = notFoundTimeout this \<and> requests this1 = requests this
     \<and> count_logged LogInfo this1 = count_logged LogInfo this
     \<and> count_logged LogError this1 = count_logged LogError this"
  by (simp add: untyped_defs updateValue_def log_call_def count_logged_def Let_def)

lemma pollAirGradient_resume_untyped_Fields:
  "\<exists>this1. pollAirGradient_resume_untyped (Inr (Fields data)) this = Inr this1
     \<and> isConnected this1"
proof -
  obtain this1 where "updateCharacteristics_untyped (Fields data) this = Inr this1"
    using updateCharacteristics_untyped_Fields by blast
  then show ?thesis
    by (simp add: pollAirGradient_resume_untyped_def)
qed

lemma pollAirGradient_resume_untyped_total:
  "\<exists>this1. pollAirGradient_resume_untyped response this = Inr this1"
proof (cases response)
  case (Inl thrown)
  then show ?thesis
    by (simp add: pollAirGradient_resume_untyped_Inl)
next
  case (Inr body)
  then show ?thesis
    using pollAirGradient_resume_untyped_Fields [of _ this]
    by (cases body) (auto simp: pollAirGradient_resume_untyped_Null)
qed

lemma pollAirGradient_resume_untyped_frame:
  assumes "pollAirGradient_resume_untyped response this = Inr this1"
  shows "config this1 = config this \<and> deviceUrl this1 = deviceUrl this
     \<and> browserListening this1 = browserListening this \<and> intervals this1 = intervals this
     \<and> notFoundTimeout this1 = notFoundTimeout this \<and> requests this1 = requests this
     \<and> count_logged LogInfo this1 = count_logged LogInfo this
     \<and> count_logged LogError this1 = count_logged LogError this"
proof (cases response)
  case (Inl thrown)
  with assms show ?thesis
    by (auto simp: pollAirGradient_resume_untyped_Inl count_logged_def)
next
  case (Inr body)
  show ?thesis
  proof (cases body)
    case NullBody
    with Inr assms show ?thesis
      by (auto simp: pollAirGradient_resume_untyped_Null count_logged_def)
  next
    case (Fields data)
    obtain mid where m: "updateCharacteristics_untyped (Fields data) this = Inr mid"
      and f: "config mid = config this" "deviceUrl mid = deviceUrl this"
        "browserListening mid = browserListening this" "intervals mid = intervals this"
        "notFoundTimeout mid = notFoundTimeout this" "requests mid = requests this"
        "count_logged LogInfo mid = count_logged LogInfo this"
        "count_logged LogError mid = count_logged LogError this"
      using updateCharacteristics_untyped_Fields [of data this] by blast
    have "this1 = mid\<lparr>isConnected := True\<rparr>"
      using assms Inr Fields m by (simp add: pollAirGradient_resume_untyped_def)
    with f show ?thesis
      by (simp add: count_logged_def)
  qed
qed

text \<open>
  On the body of a Reading the methods on any body do what the typed ones do; the two
  differ only in how the log line keeps the body it prints.
\<close>

lemma pollAirGradient_resume_untyped_Reading:
  "\<exists>u t. pollAirGradient_resume_untyped (Inr (as_body data)) this = Inr u
     \<and> pollAirGradient_resume (Inr data) this = Inr t
     \<and> u\<lparr>logged := []\<rparr> = t\<lparr>logged := []\<rparr>
     \<and> map fst (logged u) = map fst (logged t)"
  by (simp add: pollAirGradient_resume_untyped_def pollAirGradient_resume_def as_body_def
      untyped_defs method_defs Let_def transformAirQuality_untyped_Some)

lemma is_Reading_as_body: "is_Reading (as_body data)"
  by (simp add: is_Reading_def as_body_def)

subsection \<open>One event\<close>

lemma step_total: "\<exists>this1. step e this = Inr this1"
  by (cases e) (simp_all add: pollAirGradient_resume_untyped_total split: list.split)

lemma step_config:
  "step e this = Inr this1 \<Longrightarrow>
   config this1 = config this \<and> browserListening this1 = browserListening this"
  by (cases e)
    (auto simp: method_defs Let_def
      split: option.splits list.splits if_splits
      dest!: pollAirGradient_resume_untyped_frame)

lemma step_intervals:
  "step e this = Inr this1 \<Longrightarrow> browserListening this \<Longrightarrow>
   intervals this1 =
     (if matching (config this) e then intervals this @ [pollDelay (config this)]
      else intervals this)"
  by (cases e)
    (auto simp: method_defs Let_def
      split: option.splits list.splits if_splits
      dest!: pollAirGradient_resume_untyped_frame)

lemma step_count_info:
  "step e this = Inr this1 \<Longrightarrow> browserListening this \<Longrightarrow>
   count_logged LogInfo this1 =
     (if matching (config this) e then Suc (count_logged LogInfo this)
      else count_logged LogInfo this)"
  by (cases e)
    (auto simp: method_defs Let_def count_logged_def
      split: option.splits list.splits if_splits
      dest!: pollAirGradient_resume_untyped_frame)

lemma step_deviceUrl:
  "step e this = Inr this1 \<Longrightarrow> \<not> matching (config this) e \<Longrightarrow>
   deviceUrl this1 = deviceUrl this"
  by (cases e)
    (auto simp: method_defs Let_def
      split: option.splits list.splits if_splits
      dest!: pollAirGradient_resume_untyped_frame)

lemma step_timeout_kept:
  "step e this = Inr this1 \<Longrightarrow> e \<noteq> NotFoundTimeoutFires \<or> notFoundTimeout this = None \<Longrightarrow>
   notFoundTimeout this1 = notFoundTimeout this
   \<and> count_logged LogError this1 = count_logged LogError this"
  by (cases e)
    (auto simp: method_defs Let_def count_logged_def
      split: option.splits list.splits if_splits
      dest!: pollAirGradient_resume_untyped_frame)

lemma step_timeout_fires:
  "notFoundTimeout this = Some delay \<Longrightarrow> falsy (deviceUrl this) \<Longrightarrow>
   \<exists>this1. step NotFoundTimeoutFires this = Inr this1
     \<and> count_logged LogError this1 = Suc (count_logged LogError this)
     \<and> notFoundTimeout this1 = None
     \<and> deviceUrl this1 = deviceUrl this \<and> intervals this1 = intervals this
     \<and> config this1 = config this \<and> browserListening this1 = browserListening this"
  by (simp add: not_found_callback_def log_call_def count_logged_def)

lemma step_match_connects:
  "browserListening this \<Longrightarrow> matching (config this) (ServiceUp service) \<Longrightarrow>
   \<exists>this1. step (ServiceUp service) this = Inr this1
     \<and> monitor_state_of this1 = Connected_Polling
     \<and> deviceUrl this1
         = Some (''http://'' @ host service @ '':'' @ number_toString (port service))
     \<and> intervals this1 = intervals this @ [pollDelay (config this)]
     \<and> requests this1
         = requests this
           @ [''http://'' @ host service @ '':'' @ number_toString (port service)
              @ ''/measures/current'']"
  by (simp add: browser_on_up_def pollAirGradient_start_def log_call_def Let_def
      monitor_state_of_def falsy_def template_str_def)

lemma step_interval_polls:
  "intervals this \<noteq> [] \<Longrightarrow> deviceUrl this = Some url \<Longrightarrow>
   \<exists>this1. step IntervalFires this = Inr this1
     \<and> requests this1 = requests this @ [url @ ''/measures/current'']
     \<and> deviceUrl this1 = deviceUrl this \<and> intervals this1 = intervals this"
  by (simp add: pollAirGradient_start_def log_call_def Let_def template_str_def)

lemma step_requests_idle:
  "step e this = Inr this1 \<Longrightarrow> browserListening this \<Longrightarrow> \<not> matching (config this) e \<Longrightarrow>
   intervals this = [] \<Longrightarrow> requests this = [] \<Longrightarrow> requests this1 = []"
  by (cases e) (auto simp: method_defs Let_def split: option.splits if_splits)

subsection \<open>Runs\<close>

lemma run_total: "\<exists>final. run events this = Inr final"
proof (induction events arbitrary: this)
  case Nil
  show ?case by simp
next
  case (Cons e es)
  obtain this1 where "step e this = Inr this1"
    using step_total by blast
  with Cons.IH [of this1] show ?case by simp
qed

lemma run_append:
  "run xs this = Inr mid \<Longrightarrow> run (xs @ ys) this = run ys mid"
  by (induction xs arbitrary: this) (auto split: sum.splits)

lemma run_config:
  "run events this = Inr final \<Longrightarrow>
   config final = config this \<and> browserListening final = browserListening this"
proof (induction events arbitrary: this)
  case Nil
  then show ?case by simp
next
  case (Cons e es)
  then obtain this1 where s: "step e this = Inr this1" and r: "run es this1 = Inr final"
    by (auto split: sum.splits)
  from Cons.IH [OF r] step_config [OF s] show ?case by simp
qed

lemma run_counts:
  "run events this = Inr final \<Longrightarrow> browserListening this \<Longrightarrow>
   length (intervals final)
     = length (intervals this) + length (filter (matching (config this)) events)
   \<and> count_logged LogInfo final
     = count_logged LogInfo this + length (filter (matching (config this)) events)"
proof (induction events arbitrary: this)
  case Nil
  then show ?case by simp
next
  case (Cons e es)
  then obtain this1 where s: "step e this = Inr this1" and r: "run es this1 = Inr final"
    by (auto split: sum.splits)
  have c: "config this1 = config this" "browserListening this1"
    using step_config [OF s] Cons.prems(2) by simp_all
  from Cons.IH [OF r c(2)] step_intervals [OF s Cons.prems(2)]
    step_count_info [OF s Cons.prems(2)] c(1)
  show ?case by simp
qed

lemma run_no_match:
  "run events this = Inr final \<Longrightarrow> browserListening this \<Longrightarrow>
   \<forall>e \<in> set events. \<not> matching (config this) e \<Longrightarrow>
   deviceUrl final = deviceUrl this \<and> intervals final = intervals this"
proof (induction events arbitrary: this)
  case Nil
  then show ?case by simp
next
  case (Cons e es)
  then obtain this1 where s: "step e this = Inr this1" and r: "run es this1 = Inr final"
    by (auto split: sum.splits)
  have c: "config this1 = config this" "browserListening this1"
    using step_config [OF s] Cons.prems(2) by simp_all
  have e: "\<not> matching (config this) e" and es: "\<forall>e \<in> set es. \<not> matching (config this1) e"
    using Cons.prems(3) c(1) by simp_all
  from Cons.IH [OF r c(2) es] step_deviceUrl [OF s e] step_intervals [OF s Cons.prems(2)] e
  show ?case by simp
qed

lemma run_requests_idle:
  "run events this = Inr final \<Longrightarrow> browserListening this \<Longrightarrow>
   \<forall>e \<in> set events. \<not> matching (config this) e \<Longrightarrow>
   intervals this = [] \<Longrightarrow> requests this = [] \<Longrightarrow> requests final = []"
proof (induction events arbitrary: this)
  case Nil
  then show ?case by simp
next
  case (Cons e es)
  then obtain this1 where s: "step e this = Inr this1" and r: "run es this1 = Inr final"
    by (auto split: sum.splits)
  have c: "config this1 = config this" "browserListening this1"
    using step_config [OF s] Cons.prems(2) by simp_all
  have e: "\<not> matching (config this) e" and es: "\<forall>e \<in> set es. \<not> matching (config this1) e"
    using Cons.prems(3) c(1) by simp_all
  have i: "intervals this1 = []"
    using step_intervals [OF s Cons.prems(2)] e Cons.prems(4) by simp
  have q: "requests this1 = []"
    using step_requests_idle [OF s Cons.prems(2) e Cons.prems(4) Cons.prems(5)] .
  from Cons.IH [OF r c(2) es i q] show ?case .
qed

lemma run_timeout_kept:
  "run events this = Inr final \<Longrightarrow>
   NotFoundTimeoutFires \<notin> set events \<or> notFoundTimeout this = None \<Longrightarrow>
   notFoundTimeout final = notFoundTimeout this
   \<and> count_logged LogError final = count_logged LogError this"
proof (induction events arbitrary: this)
  case Nil
  then show ?case by simp
next
  case (Cons e es)
  then obtain this1 where s: "step e this = Inr this1" and r: "run es this1 = Inr final"
    by (auto split: sum.splits)
  have e: "e \<noteq> NotFoundTimeoutFires \<or> notFoundTimeout this = None"
    using Cons.prems(2) by auto
  note k = step_timeout_kept [OF s e]
  have "NotFoundTimeoutFires \<notin> set es \<or> notFoundTimeout this1 = None"
    using Cons.prems(2) k by auto
  from Cons.IH [OF r this] k show ?case by simp
qed

lemma new_AirQualitySensor_fields:
  "config (new_AirQualitySensor cfg m fresh) = cfg"
  "deviceUrl (new_AirQualitySensor cfg m fresh) = None"
  "intervals (new_AirQualitySensor cfg m fresh) = []"
  "browserListening (new_AirQualitySensor cfg m fresh)"
  "notFoundTimeout (new_AirQualitySensor cfg m fresh) = Some 5000"
  "count_logged LogError (new_AirQualitySensor cfg m fresh) = 0"
  "count_logged LogInfo (new_AirQualitySensor cfg m fresh) = 0"
  "\<not> isConnected (new_AirQualitySensor cfg m fresh)"
  "requests (new_AirQualitySensor cfg m fresh) = []"
  by (simp_all add: new_AirQualitySensor_def method_defs Let_def count_logged_def)

section \<open>Polling\<close>

text \<open>
  C3. The claim: a successful fetch whose reading has \<open>boot = 0\<close> leaves every field of
  the device state as it was, the connected flag included. In the source
  \<open>updateCharacteristics\<close> returns early on such a reading, and \<open>pollAirGradient\<close>
  then executes \<open>this.isConnected = true\<close>: on the sample object, disconnected after a
  failed poll, the flag changes from false to true.
\<close>

theorem C3_booting_reading_counterexample:
  "\<not> isConnected demo_stale
   \<and> boot demo_booting = 0
   \<and> pollAirGradient_resume (Inr demo_booting) demo_stale
       = Inr ((updateCharacteristics demo_booting demo_stale)\<lparr>isConnected := True\<rparr>)
   \<and> isConnected ((updateCharacteristics demo_booting demo_stale)\<lparr>isConnected := True\<rparr>)
   \<and> pollAirGradient_resume (Inr demo_booting) demo_stale \<noteq> Inr demo_stale"
proof -
  have "isConnected this \<noteq> isConnected demo_stale \<Longrightarrow> this \<noteq> demo_stale" for this
    by auto
  then show ?thesis
    by (simp add: pollAirGradient_resume_Inr demo_stale_def demo_booting_def)
qed

text \<open>
  C3, as amended. For every prior state, a successful fetch whose reading has
  \<open>boot = 0\<close> leaves the stored measurements, the rank, the firmware version and the
  address as they were and sets the connected flag to true; apart from the two debug
  lines it logs, the state is the prior one exactly when the object was connected
  already.
\<close>

theorem C3_booting_reading_sets_connected:
  "boot data = 0 \<Longrightarrow>
   pollAirGradient_resume (Inr data) this =
     Inr (this\<lparr>isConnected := True,
               logged := logged this @
                 [(LogDebug, ''Updating with new data: '', [ArgJson data]),
                  (LogDebug, ''Device still booting...'', [])]\<rparr>)
   \<and> (\<exists>this1. pollAirGradient_resume (Inr data) this = Inr this1
         \<and> services this1 = services this
         \<and> this_firmwareVersion this1 = this_firmwareVersion this
         \<and> deviceUrl this1 = deviceUrl this
         \<and> isConnected this1)"
  by (simp add: pollAirGradient_resume_Inr updateCharacteristics_booting)

theorem C3_booting_reading_sets_connected_witness:
  "boot demo_booting = 0
   \<and> \<not> isConnected demo_stale
   \<and> pollAirGradient_resume (Inr demo_booting) demo_stale =
       Inr (demo_stale\<lparr>isConnected := True,
              logged := logged demo_stale @
                [(LogDebug, ''Updating with new data: '', [ArgJson demo_booting]),
                 (LogDebug, ''Device still booting...'', [])]\<rparr>)"
proof -
  have b: "boot demo_booting = 0"
    by (simp add: demo_booting_def)
  have c: "\<not> isConnected demo_stale"
    by (simp add: demo_stale_def)
  from C3_booting_reading_sets_connected [OF b, of demo_stale] b c show ?thesis
    by simp
qed

text \<open>
  C4. For each of the five measurements (rank, PM2.5, PM10, CO2, temperature) a read
  from outside returns the value stored last while \<open>isConnected\<close> holds, and fails with
  \<open>SERVICE_COMMUNICATION_FAILURE\<close> while it does not, whatever value is stored.
\<close>

theorem C4_reads_follow_connected_flag:
  "\<forall>k \<in> set metrics.
     (isConnected this \<longrightarrow>
        onGet k this = Inr (services this k)
        \<and> onGet k (updateValue k v this) = Inr (Some v))
     \<and> (\<not> isConnected this \<longrightarrow>
        onGet k this = Inl (HapStatusError SERVICE_COMMUNICATION_FAILURE)
        \<and> onGet k (updateValue k v this) = Inl (HapStatusError SERVICE_COMMUNICATION_FAILURE))"
  by (simp add: onGet_metrics updateValue_def)

theorem C4_reads_follow_connected_flag_witness:
  "(airQualityService, AirQuality) \<in> set metrics
   \<and> isConnected demo_connected
   \<and> onGet (airQualityService, AirQuality) demo_connected = Inr (Some (Num 2))
   \<and> onGet (airQualityService, AirQuality)
        (updateValue (airQualityService, AirQuality) (Num 4) demo_connected) = Inr (Some (Num 4))
   \<and> \<not> isConnected demo_stale
   \<and> services demo_stale (airQualityService, AirQuality) = Some (Num 2)
   \<and> onGet (airQualityService, AirQuality) demo_stale
        = Inl (HapStatusError SERVICE_COMMUNICATION_FAILURE)"
proof -
  have m: "(airQualityService, AirQuality) \<in> set metrics"
    by (simp add: metrics_def)
  have c: "isConnected demo_connected" "\<not> isConnected demo_stale"
    by (simp_all add: demo_stale_def demo_connected_def)
  have v: "services demo_connected (airQualityService, AirQuality) = Some (Num 2)"
    "services demo_stale (airQualityService, AirQuality) = Some (Num 2)"
    by (simp_all add: demo_stale_def demo_connected_def demo_reading_def demo_sensor_def
        new_AirQualitySensor_def method_defs Let_def transformAirQuality_def)
  from C4_reads_follow_connected_flag [of demo_connected "Num 4"]
    C4_reads_follow_connected_flag [of demo_stale "Num 4"] m c v
  show ?thesis
    by simp
qed





section \<open>Discovery\<close>

text \<open>
  C6. The claim: after the first matching advertisement every later one is ignored, so
  the address is resolved once and one poll loop is started. The listener of the source
  has no such guard. On the sample object a second advertisement of the same device,
  from another address, replaces the address and registers a second repeating timer.
\<close>

theorem C6_second_match_counterexample:
  "run [ServiceUp demo_service] demo_sensor = Inr (browser_on_up demo_service demo_sensor)
   \<and> deviceUrl (browser_on_up demo_service demo_sensor) = Some ''http://10.0.0.7:80''
   \<and> intervals (browser_on_up demo_service demo_sensor) = [60000]
   \<and> run [ServiceUp demo_service, ServiceUp demo_service_moved] demo_sensor
       = Inr (browser_on_up demo_service_moved (browser_on_up demo_service demo_sensor))
   \<and> deviceUrl (browser_on_up demo_service_moved (browser_on_up demo_service demo_sensor))
       = Some ''http://10.0.0.9:80''
   \<and> intervals (browser_on_up demo_service_moved (browser_on_up demo_service demo_sensor))
       = [60000, 60000]
   \<and> requests (browser_on_up demo_service_moved (browser_on_up demo_service demo_sensor))
       = [''http://10.0.0.7:80/measures/current'', ''http://10.0.0.9:80/measures/current'']"
  by (simp add: demo_sensor_def demo_service_def demo_service_moved_def demo_config_def
      new_AirQualitySensor_def method_defs Let_def template_str_def
      number_toString.simps digit_char_def)

text \<open>
  C6, as amended. Every advertisement whose name contains \<open>airgradient_\<close> followed by
  the configured serial number, the first and each later one alike, sets the address
  from that advertisement, starts one poll at once and registers one more repeating
  poll timer; an advertisement that does not match changes nothing. So in any sequence
  of events after construction, the number of addresses resolved and the number of
  repeating timers both equal the number of matching advertisements.
\<close>

theorem C6_every_match_resolves_and_polls:
  "(matching (config this) (ServiceUp service) \<longrightarrow>
      deviceUrl (browser_on_up service this)
        = Some (''http://'' @ host service @ '':'' @ number_toString (port service))
      \<and> intervals (browser_on_up service this) = intervals this @ [pollDelay (config this)]
      \<and> requests (browser_on_up service this)
        = requests this
          @ [''http://'' @ host service @ '':'' @ number_toString (port service)
             @ ''/measures/current''])
   \<and> (\<not> matching (config this) (ServiceUp service) \<longrightarrow> browser_on_up service this = this)
   \<and> (\<exists>final. run events (new_AirQualitySensor cfg m fresh) = Inr final
        \<and> length (intervals final) = length (filter (matching cfg) events)
        \<and> count_logged LogInfo final = length (filter (matching cfg) events))"
proof -
  obtain final where r: "run events (new_AirQualitySensor cfg m fresh) = Inr final"
    using run_total by blast
  from run_counts [OF r] have
    "length (intervals final) = length (filter (matching cfg) events)
     \<and> count_logged LogInfo final = length (filter (matching cfg) events)"
    by (simp add: new_AirQualitySensor_fields)
  with r show ?thesis
    by (simp add: browser_on_up_def pollAirGradient_start_def log_call_def Let_def
        template_str_def)
qed

theorem C6_every_match_resolves_and_polls_witness:
  "matching (config (browser_on_up demo_service demo_sensor)) (ServiceUp demo_service_moved)
   \<and> deviceUrl (browser_on_up demo_service demo_sensor) = Some ''http://10.0.0.7:80''
   \<and> deviceUrl (browser_on_up demo_service_moved (browser_on_up demo_service demo_sensor))
       = Some ''http://10.0.0.9:80''
   \<and> \<not> matching (config demo_sensor) (ServiceUp demo_other_service)
   \<and> browser_on_up demo_other_service demo_sensor = demo_sensor
   \<and> (\<exists>final. run [ServiceUp demo_service, ServiceUp demo_other_service,
                    ServiceUp demo_service_moved] demo_sensor = Inr final
        \<and> length (intervals final) = 2 \<and> count_logged LogInfo final = 2)"
proof -
  have c: "config (browser_on_up demo_service demo_sensor) = demo_config"
    "config demo_sensor = demo_config"
    by (simp_all add: demo_sensor_def new_AirQualitySensor_fields browser_on_up_def
        pollAirGradient_start_def log_call_def Let_def)
  have m: "matching demo_config (ServiceUp demo_service_moved)"
    "matching demo_config (ServiceUp demo_service)"
    "\<not> matching demo_config (ServiceUp demo_other_service)"
    by (simp_all add: demo_config_def demo_service_def demo_service_moved_def
        demo_other_service_def)
  have u: "deviceUrl (browser_on_up demo_service demo_sensor) = Some ''http://10.0.0.7:80''"
    by (simp add: demo_sensor_def demo_service_def demo_config_def new_AirQualitySensor_def
        method_defs Let_def number_toString.simps digit_char_def)
  have n: "number_toString (port demo_service_moved) = ''80''"
    "host demo_service_moved = ''10.0.0.9''"
    by (simp_all add: demo_service_moved_def number_toString.simps digit_char_def)
  have f: "length (filter (matching demo_config)
             [ServiceUp demo_service, ServiceUp demo_other_service,
              ServiceUp demo_service_moved]) = 2"
    using m by simp
  from C6_every_match_resolves_and_polls
    [of "browser_on_up demo_service demo_sensor" demo_service_moved
      "[ServiceUp demo_service, ServiceUp demo_other_service, ServiceUp demo_service_moved]"
      demo_config "''AirGradient''" "\<lambda>k. None"]
    C6_every_match_resolves_and_polls [of demo_sensor demo_other_service "[]" demo_config "[]" "\<lambda>k. None"]
    c m u n f
  show ?thesis
    by (simp add: demo_sensor_def)
qed

text \<open>
  C7. Let no matching advertisement arrive before the one-shot timer fires. Then
  \<open>No device found\<close> is logged once, as an error line, and never again whatever
  happens later; the listener stays registered; while no matching advertisement
  arrives the object stays in \<open>Discovering\<close> and sends no request; and a matching
  advertisement that arrives after the timer takes it to \<open>Connected_Polling\<close>: the
  address is set, the first poll is sent to it at once, one repeating timer is
  registered, and a tick of that timer sends the next poll.
\<close>

theorem C7_not_found_reported_once:
  assumes "\<forall>e \<in> set before. \<not> matching cfg e"
    and "NotFoundTimeoutFires \<notin> set before"
    and "\<forall>e \<in> set between. \<not> matching cfg e"
    and "matching cfg (ServiceUp service)"
  shows "\<exists>fired waiting found ticked final.
           run (before @ [NotFoundTimeoutFires]) (new_AirQualitySensor cfg m fresh) = Inr fired
           \<and> count_logged LogError fired = 1
           \<and> browserListening fired
           \<and> monitor_state_of fired = Discovering
           \<and> run between fired = Inr waiting
           \<and> count_logged LogError waiting = 1
           \<and> browserListening waiting
           \<and> monitor_state_of waiting = Discovering
           \<and> requests waiting = []
           \<and> step (ServiceUp service) waiting = Inr found
           \<and> monitor_state_of found = Connected_Polling
           \<and> deviceUrl found
               = Some (''http://'' @ host service @ '':'' @ number_toString (port service))
           \<and> requests found
               = [''http://'' @ host service @ '':'' @ number_toString (port service)
                  @ ''/measures/current'']
           \<and> intervals found = [pollDelay cfg]
           \<and> step IntervalFires found = Inr ticked
           \<and> requests ticked
               = [''http://'' @ host service @ '':'' @ number_toString (port service)
                  @ ''/measures/current'',
                  ''http://'' @ host service @ '':'' @ number_toString (port service)
                  @ ''/measures/current'']
           \<and> run after found = Inr final
           \<and> count_logged LogError final = 1
           \<and> browserListening final
           \<and> run (before @ [NotFoundTimeoutFires] @ between @ [ServiceUp service] @ after)
                (new_AirQualitySensor cfg m fresh) = Inr final"
proof -
  let ?init = "new_AirQualitySensor cfg m fresh"
  let ?url = "''http://'' @ host service @ '':'' @ number_toString (port service)"
  note init = new_AirQualitySensor_fields [of cfg m fresh]
  obtain early where r0: "run before ?init = Inr early"
    using run_total by blast
  have c0: "config early = cfg" "browserListening early"
    using run_config [OF r0] init by simp_all
  have d0: "deviceUrl early = None" "intervals early = []"
    using run_no_match [OF r0] assms(1) init by simp_all
  have q0: "requests early = []"
    using run_requests_idle [OF r0] assms(1) init by simp
  have t0: "notFoundTimeout early = Some 5000" "count_logged LogError early = 0"
    using run_timeout_kept [OF r0] assms(2) init by simp_all
  obtain fired where s1: "step NotFoundTimeoutFires early = Inr fired"
    and f1: "count_logged LogError fired = 1" "notFoundTimeout fired = None"
      "deviceUrl fired = None" "intervals fired = []"
      "config fired = cfg" "browserListening fired"
    using step_timeout_fires [OF t0(1)] d0 t0 c0 by (auto simp: falsy_def)
  have q1: "requests fired = []"
    using step_requests_idle [OF s1 c0(2) _ d0(2) q0] by simp
  have r1: "run (before @ [NotFoundTimeoutFires]) ?init = Inr fired"
    using run_append [OF r0, of "[NotFoundTimeoutFires]"] s1 by simp
  have m1: "monitor_state_of fired = Discovering"
    using f1 by (simp add: monitor_state_of_def falsy_def)
  obtain waiting where r2: "run between fired = Inr waiting"
    using run_total by blast
  have c2: "config waiting = cfg" "browserListening waiting"
    using run_config [OF r2] f1 by simp_all
  have d2: "deviceUrl waiting = None" "intervals waiting = []"
    using run_no_match [OF r2] assms(3) f1 by simp_all
  have q2: "requests waiting = []"
    using run_requests_idle [OF r2] assms(3) f1 q1 by simp
  have t2: "notFoundTimeout waiting = None" "count_logged LogError waiting = 1"
    using run_timeout_kept [OF r2] f1 by simp_all
  have m2: "monitor_state_of waiting = Discovering"
    using d2 by (simp add: monitor_state_of_def falsy_def)
  obtain found where s3: "step (ServiceUp service) waiting = Inr found"
    and m3: "monitor_state_of found = Connected_Polling"
    and u3: "deviceUrl found = Some ?url"
    and i3: "intervals found = [pollDelay cfg]"
    and q3: "requests found = [?url @ ''/measures/current'']"
    using step_match_connects [of waiting service] c2 d2 q2 assms(4) by auto
  have c3: "browserListening found"
    using step_config [OF s3] c2 by simp
  have t3: "notFoundTimeout found = None" "count_logged LogError found = 1"
    using step_timeout_kept [OF s3] t2 by simp_all
  obtain ticked where s4: "step IntervalFires found = Inr ticked"
    and q4: "requests ticked = [?url @ ''/measures/current'', ?url @ ''/measures/current'']"
    using step_interval_polls [of found ?url] i3 u3 q3 by auto
  obtain final where r4: "run after found = Inr final"
    using run_total by blast
  have c4: "browserListening final"
    using run_config [OF r4] c3 by simp
  have t4: "count_logged LogError final = 1"
    using run_timeout_kept [OF r4] t3 by simp
  have r3: "run [ServiceUp service] waiting = Inr found"
    using s3 by simp
  have "run (before @ [NotFoundTimeoutFires] @ between @ [ServiceUp service] @ after) ?init
          = Inr final"
    using run_append [OF r1, of "between @ [ServiceUp service] @ after"]
      run_append [OF r2, of "[ServiceUp service] @ after"]
      run_append [OF r3, of after] r4
    by simp
  with r1 f1 m1 r2 c2 t2 m2 q2 s3 m3 u3 q3 i3 s4 q4 r4 c4 t4 show ?thesis
    by - (rule exI [of _ fired], rule exI [of _ waiting], rule exI [of _ found],
      rule exI [of _ ticked], rule exI [of _ final], simp)
qed

theorem C7_not_found_reported_once_witness:
  "\<not> matching demo_config (ServiceUp demo_other_service)
   \<and> NotFoundTimeoutFires \<noteq> ServiceUp demo_other_service
   \<and> \<not> matching demo_config NotFoundTimeoutFires
   \<and> matching demo_config (ServiceUp demo_service)
   \<and> (\<exists>waiting found ticked final.
        run ([ServiceUp demo_other_service] @ [NotFoundTimeoutFires]
             @ [NotFoundTimeoutFires, ServiceUp demo_other_service]) demo_sensor = Inr waiting
        \<and> count_logged LogError waiting = 1
        \<and> monitor_state_of waiting = Discovering
        \<and> requests waiting = []
        \<and> step (ServiceUp demo_service) waiting = Inr found
        \<and> monitor_state_of found = Connected_Polling
        \<and> deviceUrl found = Some ''http://10.0.0.7:80''
        \<and> requests found = [''http://10.0.0.7:80/measures/current'']
        \<and> intervals found = [60000]
        \<and> step IntervalFires found = Inr ticked
        \<and> requests ticked
            = [''http://10.0.0.7:80/measures/current'', ''http://10.0.0.7:80/measures/current'']
        \<and> run ([ServiceUp demo_other_service] @ [NotFoundTimeoutFires]
             @ [NotFoundTimeoutFires, ServiceUp demo_other_service]
             @ [ServiceUp demo_service]
             @ [RequestSettles (Inr (as_body demo_reading)), IntervalFires,
                NotFoundTimeoutFires])
          demo_sensor = Inr final
        \<and> count_logged LogError final = 1
        \<and> browserListening final)"
proof -
  have o: "\<not> matching demo_config (ServiceUp demo_other_service)"
    by (simp add: demo_config_def demo_other_service_def)
  have h1: "\<forall>e \<in> set [ServiceUp demo_other_service]. \<not> matching demo_config e"
    using o by simp
  have h2: "NotFoundTimeoutFires \<notin> set [ServiceUp demo_other_service]"
    by simp
  have h3: "\<forall>e \<in> set [NotFoundTimeoutFires, ServiceUp demo_other_service].
              \<not> matching demo_config e"
    using o by simp
  have h4: "matching demo_config (ServiceUp demo_service)"
    by (simp add: demo_config_def demo_service_def)
  have n: "''http://'' @ host demo_service @ '':'' @ number_toString (port demo_service)
             = ''http://10.0.0.7:80''"
    "pollDelay demo_config = 60000"
    by (simp_all add: demo_service_def demo_config_def number_toString.simps digit_char_def)
  from C7_not_found_reported_once [OF h1 h2 h3 h4, of "''AirGradient''" "\<lambda>k. None"
      "[RequestSettles (Inr (as_body demo_reading)), IntervalFires, NotFoundTimeoutFires]"]
  obtain fired waiting found ticked final where
    a: "run ([ServiceUp demo_other_service] @ [NotFoundTimeoutFires]) demo_sensor = Inr fired"
      "run [NotFoundTimeoutFires, ServiceUp demo_other_service] fired = Inr waiting"
    and b: "count_logged LogError waiting = 1"
      "monitor_state_of waiting = Discovering"
      "requests waiting = []"
      "step (ServiceUp demo_service) waiting = Inr found"
      "monitor_state_of found = Connected_Polling"
      "deviceUrl found
         = Some (''http://'' @ host demo_service @ '':'' @ number_toString (port demo_service))"
      "requests found
         = [''http://'' @ host demo_service @ '':'' @ number_toString (port demo_service)
            @ ''/measures/current'']"
      "intervals found = [pollDelay demo_config]"
      "step IntervalFires found = Inr ticked"
      "requests ticked
         = [''http://'' @ host demo_service @ '':'' @ number_toString (port demo_service)
            @ ''/measures/current'',
            ''http://'' @ host demo_service @ '':'' @ number_toString (port demo_service)
            @ ''/measures/current'']"
      "run ([ServiceUp demo_other_service] @ [NotFoundTimeoutFires]
             @ [NotFoundTimeoutFires, ServiceUp demo_other_service]
             @ [ServiceUp demo_service]
             @ [RequestSettles (Inr (as_body demo_reading)), IntervalFires,
                NotFoundTimeoutFires])
          demo_sensor = Inr final"
      "count_logged LogError final = 1"
      "browserListening final"
    unfolding demo_sensor_def by blast
  have w: "run ([ServiceUp demo_other_service] @ [NotFoundTimeoutFires]
             @ [NotFoundTimeoutFires, ServiceUp demo_other_service]) demo_sensor = Inr waiting"
    using run_append [OF a(1), of "[NotFoundTimeoutFires, ServiceUp demo_other_service]"] a(2)
    by simp
  have u: "deviceUrl found = Some ''http://10.0.0.7:80''"
    "requests found = [''http://10.0.0.7:80/measures/current'']"
    "intervals found = [60000]"
    "requests ticked
       = [''http://10.0.0.7:80/measures/current'', ''http://10.0.0.7:80/measures/current'']"
    using b(6,7,8,10) n by simp_all
  have "\<exists>waiting found ticked final.
        run ([ServiceUp demo_other_service] @ [NotFoundTimeoutFires]
             @ [NotFoundTimeoutFires, ServiceUp demo_other_service]) demo_sensor = Inr waiting
        \<and> count_logged LogError waiting = 1
        \<and> monitor_state_of waiting = Discovering
        \<and> requests waiting = []
        \<and> step (ServiceUp demo_service) waiting = Inr found
        \<and> monitor_state_of found = Connected_Polling
        \<and> deviceUrl found = Some ''http://10.0.0.7:80''
        \<and> requests found = [''http://10.0.0.7:80/measures/current'']
        \<and> intervals found = [60000]
        \<and> step IntervalFires found = Inr ticked
        \<and> requests ticked
            = [''http://10.0.0.7:80/measures/current'', ''http://10.0.0.7:80/measures/current'']
        \<and> run ([ServiceUp demo_other_service] @ [NotFoundTimeoutFires]
             @ [NotFoundTimeoutFires, ServiceUp demo_other_service]
             @ [ServiceUp demo_service]
             @ [RequestSettles (Inr (as_body demo_reading)), IntervalFires,
                NotFoundTimeoutFires])
          demo_sensor = Inr final
        \<and> count_logged LogError final = 1
        \<and> browserListening final"
    using w b(1,2,3,4,5,9,11,12,13) u
    by (intro exI [of _ waiting] exI [of _ found] exI [of _ ticked] exI [of _ final] conjI)
  moreover have "NotFoundTimeoutFires \<noteq> ServiceUp demo_other_service"
    "\<not> matching demo_config NotFoundTimeoutFires"
    by simp_all
  ultimately show ?thesis
    using o h4 by (intro conjI) assumption+
qed

end
